theory Spec2Isabelle
  imports Complex_Main
begin

section \<open>The last-value forecaster (\<^verbatim>\<open>aeon/forecasting/_dummy.py\<close>)\<close>

text \<open>
  Python exceptions that the modelled code can run into. \<open>IndexError\<close> is what
  \<^verbatim>\<open>y[-1]\<close> raises on an empty sequence; \<open>NotFittedError\<close> is the "unfit model"
  condition of the estimator lifecycle.
\<close>

datatype py_error = IndexError | NotFittedError

text \<open>
  \<^verbatim>\<open>y[-1]\<close>: the last element of a sequence, \<open>IndexError\<close> when there is none.
\<close>

definition getitem_last :: "'a list \<Rightarrow> py_error + 'a" where
  "getitem_last y = (case y of [] \<Rightarrow> Inl IndexError | _ # _ \<Rightarrow> Inr (last y))"

text \<open>
  The object has one attribute, \<^verbatim>\<open>last_value_\<close> (the field \<open>last_value\<close> here: a name
  cannot end in an underscore); Python's \<^verbatim>\<open>None\<close> is \<open>None\<close>.
  The observations are of any type \<open>'a\<close>: the class never computes with them.
\<close>

record 'a DummyForecaster =
  last_value :: "'a option"

text \<open>\<^verbatim>\<open>__init__\<close>: \<^verbatim>\<open>self.last_value_ = None\<close>.\<close>

definition DummyForecaster_init :: "'a DummyForecaster" where
  "DummyForecaster_init = \<lparr>last_value = None\<rparr>"

text \<open>
  \<^verbatim>\<open>_fit(self, y, exog=None)\<close>: \<^verbatim>\<open>self.last_value_ = y[-1]; return self\<close>.
  The result is the updated object, or the exception of the indexing.
\<close>

definition DummyForecaster_fit ::
  "'a DummyForecaster \<Rightarrow> 'a list \<Rightarrow> 'x option \<Rightarrow> py_error + 'a DummyForecaster" where
  "DummyForecaster_fit self y exog =
     (case getitem_last y of
        Inl e \<Rightarrow> Inl e
      | Inr v \<Rightarrow> Inr (self\<lparr>last_value := Some v\<rparr>))"

text \<open>
  \<^verbatim>\<open>_predict(self, y=None, exog=None)\<close>: \<^verbatim>\<open>return self.last_value_\<close>.
  The method returns the attribute as it is (possibly \<^verbatim>\<open>None\<close>) together with the
  object, which it does not assign to.
\<close>

definition DummyForecaster_predict ::
  "'a DummyForecaster \<Rightarrow> 'a list option \<Rightarrow> 'x option \<Rightarrow> 'a option \<times> 'a DummyForecaster" where
  "DummyForecaster_predict self y exog = (last_value self, self)"

text \<open>
  \<^verbatim>\<open>_forecast(self, y, X=None)\<close>: \<^verbatim>\<open>return y[-1]\<close>. No attribute is assigned.
\<close>

definition DummyForecaster_forecast ::
  "'a DummyForecaster \<Rightarrow> 'a list \<Rightarrow> 'x option \<Rightarrow> py_error + ('a \<times> 'a DummyForecaster)" where
  "DummyForecaster_forecast self y X =
     (case getitem_last y of
        Inl e \<Rightarrow> Inl e
      | Inr v \<Rightarrow> Inr (v, self))"

text \<open>
  The public \<^verbatim>\<open>predict\<close> is a method of the base class \<^verbatim>\<open>BaseForecaster\<close>
  (aeon/forecasting/base.py), which is not among the sources at hand; only the
  override \<^verbatim>\<open>_predict\<close> above is.
\<close>

definition predict ::
  "'a DummyForecaster \<Rightarrow> 'a list option \<Rightarrow> 'x option
     \<Rightarrow> py_error + ('a option \<times> 'a DummyForecaster)" where
  \<comment> \<open>Modelled from the spec: the public \<^verbatim>\<open>predict\<close> of \<^verbatim>\<open>BaseForecaster\<close>, whose source
      is missing. The spec (4.1, 7): \<open>last_value\<close> is absent before fit; \<open>predict\<close> "fails
      with an unfit model condition if called before fit" and otherwise returns
      \<open>last_value\<close>, here through the override.\<close>
  "predict self y exog =
     (case last_value self of
        None \<Rightarrow> Inl NotFittedError
      | Some _ \<Rightarrow> Inr (DummyForecaster_predict self y exog))"


section \<open>The scaled logit transformer (\<^verbatim>\<open>aeon/transformations/series/_scaled_logit.py\<close>)\<close>

subsection \<open>Array elements\<close>

text \<open>
  The elements of a numpy array of floats. A finite value is taken as the real number
  it stands for: rounding, overflow, underflow and the sign of zero are abstracted
  away. The three special values are kept, because the formulas are evaluated outside
  their domain too: numpy returns \<^verbatim>\<open>nan\<close> or an infinity there and carries on.
\<close>

datatype npfloat = Fin real | PInf | NInf | NaN

fun fneg :: "npfloat \<Rightarrow> npfloat" where
  "fneg (Fin x) = Fin (- x)"
| "fneg PInf = NInf"
| "fneg NInf = PInf"
| "fneg NaN = NaN"

fun fadd :: "npfloat \<Rightarrow> npfloat \<Rightarrow> npfloat" where
  "fadd NaN _ = NaN"
| "fadd _ NaN = NaN"
| "fadd (Fin x) (Fin y) = Fin (x + y)"
| "fadd PInf NInf = NaN"
| "fadd NInf PInf = NaN"
| "fadd PInf _ = PInf"
| "fadd _ PInf = PInf"
| "fadd NInf _ = NInf"
| "fadd _ NInf = NInf"

definition fsub :: "npfloat \<Rightarrow> npfloat \<Rightarrow> npfloat" where
  "fsub x y = fadd x (fneg y)"

fun fmul :: "npfloat \<Rightarrow> npfloat \<Rightarrow> npfloat" where
  "fmul NaN _ = NaN"
| "fmul _ NaN = NaN"
| "fmul (Fin x) (Fin y) = Fin (x * y)"
| "fmul PInf (Fin y) = (if y = 0 then NaN else if 0 < y then PInf else NInf)"
| "fmul NInf (Fin y) = (if y = 0 then NaN else if 0 < y then NInf else PInf)"
| "fmul (Fin x) PInf = (if x = 0 then NaN else if 0 < x then PInf else NInf)"
| "fmul (Fin x) NInf = (if x = 0 then NaN else if 0 < x then NInf else PInf)"
| "fmul PInf PInf = PInf"
| "fmul NInf NInf = PInf"
| "fmul PInf NInf = NInf"
| "fmul NInf PInf = NInf"

text \<open>
  Division by zero is not an error in numpy: a non-zero finite value over zero is an
  infinity, zero over zero is \<^verbatim>\<open>nan\<close>. The zero divisors that the transformer can
  produce are results of a subtraction of equal values, hence positive zeros.
\<close>

fun fdiv :: "npfloat \<Rightarrow> npfloat \<Rightarrow> npfloat" where
  "fdiv NaN _ = NaN"
| "fdiv _ NaN = NaN"
| "fdiv (Fin x) (Fin y) =
     (if y = 0 then (if x = 0 then NaN else if 0 < x then PInf else NInf) else Fin (x / y))"
| "fdiv (Fin x) PInf = Fin 0"
| "fdiv (Fin x) NInf = Fin 0"
| "fdiv PInf (Fin y) = (if 0 \<le> y then PInf else NInf)"
| "fdiv NInf (Fin y) = (if 0 \<le> y then NInf else PInf)"
| "fdiv PInf PInf = NaN"
| "fdiv PInf NInf = NaN"
| "fdiv NInf PInf = NaN"
| "fdiv NInf NInf = NaN"

text \<open>\<^verbatim>\<open>np.log\<close>: minus infinity at zero, \<^verbatim>\<open>nan\<close> below it.\<close>

fun flog :: "npfloat \<Rightarrow> npfloat" where
  "flog (Fin x) = (if 0 < x then Fin (ln x) else if x = 0 then NInf else NaN)"
| "flog PInf = PInf"
| "flog NInf = NaN"
| "flog NaN = NaN"

fun fexp :: "npfloat \<Rightarrow> npfloat" where
  "fexp (Fin x) = Fin (exp x)"
| "fexp PInf = PInf"
| "fexp NInf = Fin 0"
| "fexp NaN = NaN"

text \<open>The comparisons \<^verbatim>\<open>>=\<close> and \<^verbatim>\<open><=\<close>: false whenever an operand is \<^verbatim>\<open>nan\<close>.\<close>

fun fge :: "npfloat \<Rightarrow> npfloat \<Rightarrow> bool" where
  "fge NaN _ = False"
| "fge _ NaN = False"
| "fge (Fin x) (Fin y) = (y \<le> x)"
| "fge PInf _ = True"
| "fge _ NInf = True"
| "fge (Fin x) PInf = False"
| "fge NInf (Fin y) = False"
| "fge NInf PInf = False"

definition fle :: "npfloat \<Rightarrow> npfloat \<Rightarrow> bool" where
  "fle x y = fge y x"

subsection \<open>Arrays, the store and the warnings\<close>

text \<open>
  An array is a shape and a flat buffer of elements. Arrays live in a store and are
  passed by reference, as Python objects are: the store is the list of all arrays
  allocated so far, a reference is an index into it, and a new array is appended.
  The process state \<open>world\<close> holds the store and the warnings issued so far through
  \<^verbatim>\<open>warnings.warn\<close>, oldest first.
\<close>

record ndarray =
  shape :: "nat list"
  data :: "npfloat list"

type_synonym ref = nat

datatype warning = RuntimeWarning string

record world =
  heap :: "ndarray list"
  emitted :: "warning list"

definition new_array :: "world \<Rightarrow> ndarray \<Rightarrow> ref \<times> world" where
  "new_array w a = (length (heap w), w\<lparr>heap := heap w @ [a]\<rparr>)"

definition warn :: "world \<Rightarrow> string \<Rightarrow> world" where
  "warn w msg = w\<lparr>emitted := emitted w @ [RuntimeWarning msg]\<rparr>"

text \<open>
  A numpy operation on one array, or on two arrays of the same shape, builds a new
  array and leaves its operands alone. \<^verbatim>\<open>deepcopy\<close> builds a new array with the same
  contents.
\<close>

definition elementwise :: "(npfloat \<Rightarrow> npfloat) \<Rightarrow> ndarray \<Rightarrow> ndarray" where
  "elementwise f a = a\<lparr>data := map f (data a)\<rparr>"

definition elementwise2 :: "(npfloat \<Rightarrow> npfloat \<Rightarrow> npfloat) \<Rightarrow> ndarray \<Rightarrow> ndarray \<Rightarrow> ndarray" where
  "elementwise2 f a b = a\<lparr>data := map (\<lambda>(x, y). f x y) (zip (data a) (data b))\<rparr>"

definition np_unary :: "(npfloat \<Rightarrow> npfloat) \<Rightarrow> world \<Rightarrow> ref \<Rightarrow> ref \<times> world" where
  "np_unary f w r = new_array w (elementwise f (heap w ! r))"

definition np_binary ::
  "(npfloat \<Rightarrow> npfloat \<Rightarrow> npfloat) \<Rightarrow> world \<Rightarrow> ref \<Rightarrow> ref \<Rightarrow> ref \<times> world" where
  "np_binary f w r1 r2 = new_array w (elementwise2 f (heap w ! r1) (heap w ! r2))"

definition deepcopy :: "world \<Rightarrow> ref \<Rightarrow> ref \<times> world" where
  "deepcopy w r = new_array w (heap w ! r)"

text \<open>\<^verbatim>\<open>np.any(X >= c)\<close> and \<^verbatim>\<open>np.any(X <= c)\<close> for a scalar \<open>c\<close>.\<close>

definition any_ge :: "ndarray \<Rightarrow> real \<Rightarrow> bool" where
  "any_ge a c = list_ex (\<lambda>x. fge x (Fin c)) (data a)"

definition any_le :: "ndarray \<Rightarrow> real \<Rightarrow> bool" where
  "any_le a c = list_ex (\<lambda>x. fle x (Fin c)) (data a)"

subsection \<open>The transformer\<close>

text \<open>
  The two parameters; \<^verbatim>\<open>None\<close> is \<open>None\<close>, a number is a real. \<open>truthy\<close> is the truth
  value Python gives such a parameter in a condition: \<^verbatim>\<open>None\<close> and zero are false.
\<close>

record ScaledLogitSeriesTransformer =
  lower_bound :: "real option"
  upper_bound :: "real option"

definition truthy :: "real option \<Rightarrow> bool" where
  "truthy p = (case p of None \<Rightarrow> False | Some c \<Rightarrow> c \<noteq> 0)"

definition upper_message :: string where
  "upper_message =
     ''X in ScaledLogitSeriesTransformer should not have values greater than upper_bound''"

definition lower_message :: string where
  "lower_message =
     ''X in ScaledLogitSeriesTransformer should not have values lower than lower_bound''"

text \<open>
  \<^verbatim>\<open>_transform(self, X, y=None)\<close>. The two checks come first and only warn; then
  the chain of four branches computes the result, one numpy operation after the
  other. The method returns the reference of the result, the object and the new
  process state.
\<close>

definition transform ::
  "ScaledLogitSeriesTransformer \<Rightarrow> world \<Rightarrow> ref
     \<Rightarrow> ref \<times> ScaledLogitSeriesTransformer \<times> world" where
  "transform self w X =
     (let w1 = (if upper_bound self \<noteq> None \<and> any_ge (heap w ! X) (the (upper_bound self))
                then warn w upper_message else w);
          w2 = (if lower_bound self \<noteq> None \<and> any_le (heap w1 ! X) (the (lower_bound self))
                then warn w1 lower_message else w1);
          (X_transformed, w3) =
            (if truthy (upper_bound self) \<and> truthy (lower_bound self) then
               let (num, wa) = np_unary (\<lambda>x. fsub x (Fin (the (lower_bound self)))) w2 X;
                   (den, wb) = np_unary (\<lambda>x. fsub (Fin (the (upper_bound self))) x) wa X;
                   (quot, wc) = np_binary fdiv wb num den
               in np_unary flog wc quot
             else if upper_bound self \<noteq> None then
               let (diff, wa) = np_unary (\<lambda>x. fsub (Fin (the (upper_bound self))) x) w2 X;
                   (lg, wb) = np_unary flog wa diff
               in np_unary fneg wb lg
             else if lower_bound self \<noteq> None then
               let (diff, wa) = np_unary (\<lambda>x. fsub x (Fin (the (lower_bound self)))) w2 X
               in np_unary flog wa diff
             else deepcopy w2 X)
      in (X_transformed, self, w3))"

text \<open>
  \<^verbatim>\<open>_inverse_transform(self, X, y=None)\<close>: the same chain of branches with the inverse
  formulas, and no check before it.
\<close>

definition inverse_transform ::
  "ScaledLogitSeriesTransformer \<Rightarrow> world \<Rightarrow> ref
     \<Rightarrow> ref \<times> ScaledLogitSeriesTransformer \<times> world" where
  "inverse_transform self w X =
     (let (X_inv_transformed, w') =
            (if truthy (upper_bound self) \<and> truthy (lower_bound self) then
               let (e1, wa) = np_unary fexp w X;
                   (prod, wb) = np_unary (\<lambda>x. fmul (Fin (the (upper_bound self))) x) wa e1;
                   (num, wc) = np_unary (\<lambda>x. fadd x (Fin (the (lower_bound self)))) wb prod;
                   (e2, wd) = np_unary fexp wc X;
                   (den, we) = np_unary (\<lambda>x. fadd x (Fin 1)) wd e2
               in np_binary fdiv we num den
             else if upper_bound self \<noteq> None then
               let (neg, wa) = np_unary fneg w X;
                   (e, wb) = np_unary fexp wa neg
               in np_unary (\<lambda>x. fsub (Fin (the (upper_bound self))) x) wb e
             else if lower_bound self \<noteq> None then
               let (e, wa) = np_unary fexp w X
               in np_unary (\<lambda>x. fadd x (Fin (the (lower_bound self)))) wa e
             else deepcopy w X)
      in (X_inv_transformed, self, w'))"

text \<open>
  The parts of what a call returns: the reference, the object and the process state
  after the call; and the array that was returned, read from that state.
\<close>

definition ref_of :: "ref \<times> ScaledLogitSeriesTransformer \<times> world \<Rightarrow> ref" where
  "ref_of res = fst res"

definition self_of ::
  "ref \<times> ScaledLogitSeriesTransformer \<times> world \<Rightarrow> ScaledLogitSeriesTransformer" where
  "self_of res = fst (snd res)"

definition world_of :: "ref \<times> ScaledLogitSeriesTransformer \<times> world \<Rightarrow> world" where
  "world_of res = snd (snd res)"

definition result_array :: "ref \<times> ScaledLogitSeriesTransformer \<times> world \<Rightarrow> ndarray" where
  "result_array res = heap (world_of res) ! ref_of res"

text \<open>
  What the branches of the two methods compute on one element, as a function of the
  parameters.
\<close>

definition forward_elem :: "ScaledLogitSeriesTransformer \<Rightarrow> npfloat \<Rightarrow> npfloat" where
  "forward_elem self x =
     (if truthy (upper_bound self) \<and> truthy (lower_bound self) then
        flog (fdiv (fsub x (Fin (the (lower_bound self)))) (fsub (Fin (the (upper_bound self))) x))
      else if upper_bound self \<noteq> None then fneg (flog (fsub (Fin (the (upper_bound self))) x))
      else if lower_bound self \<noteq> None then flog (fsub x (Fin (the (lower_bound self))))
      else x)"

definition backward_elem :: "ScaledLogitSeriesTransformer \<Rightarrow> npfloat \<Rightarrow> npfloat" where
  "backward_elem self x =
     (if truthy (upper_bound self) \<and> truthy (lower_bound self) then
        fdiv (fadd (fmul (Fin (the (upper_bound self))) (fexp x)) (Fin (the (lower_bound self))))
             (fadd (fexp x) (Fin 1))
      else if upper_bound self \<noteq> None then fsub (Fin (the (upper_bound self))) (fexp (fneg x))
      else if lower_bound self \<noteq> None then fadd (fexp x) (Fin (the (lower_bound self)))
      else x)"

text \<open>
  An element strictly inside the open interval of the configured bounds: a finite
  value above the lower bound, if there is one, and below the upper bound, if there
  is one.
\<close>

definition strictly_inside :: "ScaledLogitSeriesTransformer \<Rightarrow> npfloat \<Rightarrow> bool" where
  "strictly_inside self x =
     (case x of
        Fin v \<Rightarrow> (case lower_bound self of None \<Rightarrow> True | Some a \<Rightarrow> a < v)
               \<and> (case upper_bound self of None \<Rightarrow> True | Some b \<Rightarrow> v < b)
      | _ \<Rightarrow> False)"


section \<open>Properties of the forecaster\<close>

lemma getitem_last_nonempty: "s \<noteq> [] \<Longrightarrow> getitem_last s = Inr (last s)"
  by (cases s) (simp_all add: getitem_last_def)

lemma getitem_last_empty: "getitem_last [] = Inl IndexError"
  by (simp add: getitem_last_def)

text \<open>
  The override \<^verbatim>\<open>_predict\<close> alone has no guard: on a freshly constructed object it
  returns the initial \<^verbatim>\<open>None\<close>. The failure of an unfit \<open>predict\<close> is the base
  class's.
\<close>

lemma DummyForecaster_predict_unfit:
  "DummyForecaster_predict DummyForecaster_init y exog = (None, DummyForecaster_init)"
  by (simp add: DummyForecaster_predict_def DummyForecaster_init_def)

text \<open>
  C3. \<open>predict\<close> on a forecaster that was constructed and never fit fails with the
  unfit-model error, whatever arguments it is given; it does not return a value.
\<close>

theorem predict_before_fit_fails:
  "predict DummyForecaster_init y exog = Inl NotFittedError"
  by (simp add: predict_def DummyForecaster_init_def)

text \<open>
  C5. For a non-empty sequence \<open>s\<close>, \<^verbatim>\<open>_fit\<close> succeeds, and \<^verbatim>\<open>_predict\<close> on the fitted
  object returns the last element of \<open>s\<close> itself, whatever \<open>y\<close> and \<open>exog\<close> are passed to
  either call and whatever the object held before.
\<close>

theorem fit_then_predict_last:
  assumes "s \<noteq> []"
  shows "\<exists>self'. DummyForecaster_fit self s exog = Inr self'
           \<and> fst (DummyForecaster_predict self' y exog') = Some (last s)"
  using assms
  by (simp add: DummyForecaster_fit_def DummyForecaster_predict_def getitem_last_nonempty)

theorem fit_then_predict_last_witness:
  "[3, 1, 4 :: int] \<noteq> []
   \<and> (\<exists>self'. DummyForecaster_fit DummyForecaster_init [3, 1, 4 :: int] (None :: unit option)
                 = Inr self'
        \<and> fst (DummyForecaster_predict self' (Some [9, 9]) (Some ())) = Some 4)"
proof -
  have ne: "[3, 1, 4 :: int] \<noteq> []" by simp
  show ?thesis
    using ne fit_then_predict_last [OF ne, of DummyForecaster_init "None :: unit option"
        "Some [9, 9]" "Some ()"]
    by simp
qed

text \<open>
  C6. For a non-empty sequence \<open>s\<close>, \<^verbatim>\<open>_forecast\<close> returns the last element of \<open>s\<close> on
  any forecaster, fitted or not, and leaves the object, hence \<^verbatim>\<open>last_value_\<close>, as it
  was.
\<close>

theorem forecast_last_stateless:
  assumes "s \<noteq> []"
  shows "DummyForecaster_forecast self s X = Inr (last s, self)"
  using assms by (simp add: DummyForecaster_forecast_def getitem_last_nonempty)

theorem forecast_last_stateless_witness:
  "[3, 1, 4 :: int] \<noteq> []
   \<and> DummyForecaster_forecast DummyForecaster_init [3, 1, 4 :: int] (None :: unit option)
       = Inr (4, DummyForecaster_init)"
proof -
  have ne: "[3, 1, 4 :: int] \<noteq> []" by simp
  show ?thesis
    using ne forecast_last_stateless [OF ne, of DummyForecaster_init "None :: unit option"]
    by simp
qed


section \<open>Properties of the transformer\<close>

subsection \<open>The store operations\<close>

lemma elementwise_comp: "elementwise g (elementwise f a) = elementwise (\<lambda>x. g (f x)) a"
  by (simp add: elementwise_def)

lemma map2_same: "map (\<lambda>(x, y). f x y) (zip (map g xs) (map h xs)) = map (\<lambda>x. f (g x) (h x)) xs"
  by (induction xs) simp_all

lemma elementwise2_same:
  "elementwise2 f (elementwise g a) (elementwise h a) = elementwise (\<lambda>x. f (g x) (h x)) a"
  by (simp add: elementwise_def elementwise2_def map2_same)

lemma elementwise_id: "elementwise (\<lambda>x. x) a = a"
  by (simp add: elementwise_def)

lemma warn_heap: "heap (warn w m) = heap w"
  by (simp add: warn_def)


lemma forward_elem_both:
  "truthy (upper_bound self) \<and> truthy (lower_bound self) \<Longrightarrow>
   forward_elem self =
     (\<lambda>x. flog (fdiv (fsub x (Fin (the (lower_bound self)))) (fsub (Fin (the (upper_bound self))) x)))"
  by (rule ext) (simp add: forward_elem_def)

lemma forward_elem_upper:
  "\<not> (truthy (upper_bound self) \<and> truthy (lower_bound self)) \<Longrightarrow> upper_bound self \<noteq> None \<Longrightarrow>
   forward_elem self = (\<lambda>x. fneg (flog (fsub (Fin (the (upper_bound self))) x)))"
  by (rule ext) (auto simp add: forward_elem_def)

lemma forward_elem_lower:
  "upper_bound self = None \<Longrightarrow> lower_bound self \<noteq> None \<Longrightarrow>
   forward_elem self = (\<lambda>x. flog (fsub x (Fin (the (lower_bound self)))))"
  by (rule ext) (simp add: forward_elem_def truthy_def)

lemma forward_elem_none:
  "upper_bound self = None \<Longrightarrow> lower_bound self = None \<Longrightarrow> forward_elem self = (\<lambda>x. x)"
  by (rule ext) (simp add: forward_elem_def truthy_def)

lemma backward_elem_both:
  "truthy (upper_bound self) \<and> truthy (lower_bound self) \<Longrightarrow>
   backward_elem self =
     (\<lambda>x. fdiv (fadd (fmul (Fin (the (upper_bound self))) (fexp x)) (Fin (the (lower_bound self))))
             (fadd (fexp x) (Fin 1)))"
  by (rule ext) (simp add: backward_elem_def)

lemma backward_elem_upper:
  "\<not> (truthy (upper_bound self) \<and> truthy (lower_bound self)) \<Longrightarrow> upper_bound self \<noteq> None \<Longrightarrow>
   backward_elem self = (\<lambda>x. fsub (Fin (the (upper_bound self))) (fexp (fneg x)))"
  by (rule ext) (auto simp add: backward_elem_def)

lemma backward_elem_lower:
  "upper_bound self = None \<Longrightarrow> lower_bound self \<noteq> None \<Longrightarrow>
   backward_elem self = (\<lambda>x. fadd (fexp x) (Fin (the (lower_bound self))))"
  by (rule ext) (simp add: backward_elem_def truthy_def)

lemma backward_elem_none:
  "upper_bound self = None \<Longrightarrow> lower_bound self = None \<Longrightarrow> backward_elem self = (\<lambda>x. x)"
  by (rule ext) (simp add: backward_elem_def truthy_def)

lemmas store_simps =
  result_array_def ref_of_def world_of_def self_of_def Let_def
  np_unary_def np_binary_def deepcopy_def new_array_def warn_def nth_append
  elementwise_comp elementwise2_same elementwise_id

lemma transform_array:
  assumes "X < length (heap w)"
  shows "result_array (transform self w X) = elementwise (forward_elem self) (heap w ! X)"
proof -
  consider (both) "truthy (upper_bound self) \<and> truthy (lower_bound self)"
    | (upper) "\<not> (truthy (upper_bound self) \<and> truthy (lower_bound self))" "upper_bound self \<noteq> None"
    | (lower) "upper_bound self = None" "lower_bound self \<noteq> None"
    | (none) "upper_bound self = None" "lower_bound self = None"
    by blast
  then show ?thesis
  proof cases
    case both
    with assms show ?thesis
      by (simp add: transform_def forward_elem_both store_simps)
  next
    case upper
    with assms show ?thesis
      by (auto simp add: transform_def forward_elem_upper store_simps)
  next
    case lower
    with assms show ?thesis
      by (simp add: transform_def forward_elem_lower truthy_def store_simps)
  next
    case none
    with assms show ?thesis
      by (simp add: transform_def forward_elem_none truthy_def store_simps)
  qed
qed

lemma inverse_transform_array:
  assumes "X < length (heap w)"
  shows "result_array (inverse_transform self w X) = elementwise (backward_elem self) (heap w ! X)"
proof -
  consider (both) "truthy (upper_bound self) \<and> truthy (lower_bound self)"
    | (upper) "\<not> (truthy (upper_bound self) \<and> truthy (lower_bound self))" "upper_bound self \<noteq> None"
    | (lower) "upper_bound self = None" "lower_bound self \<noteq> None"
    | (none) "upper_bound self = None" "lower_bound self = None"
    by blast
  then show ?thesis
  proof cases
    case both
    with assms show ?thesis
      by (simp add: inverse_transform_def backward_elem_both store_simps)
  next
    case upper
    with assms show ?thesis
      by (auto simp add: inverse_transform_def backward_elem_upper store_simps)
  next
    case lower
    with assms show ?thesis
      by (simp add: inverse_transform_def backward_elem_lower truthy_def store_simps)
  next
    case none
    with assms show ?thesis
      by (simp add: inverse_transform_def backward_elem_none truthy_def store_simps)
  qed
qed

subsection \<open>Frame: what a call leaves alone\<close>

lemma transform_frame:
  "self_of (transform self w X) = self"
  "length (heap w) \<le> ref_of (transform self w X)"
  "ref_of (transform self w X) < length (heap (world_of (transform self w X)))"
  "take (length (heap w)) (heap (world_of (transform self w X))) = heap w"
  by (simp_all add: transform_def store_simps split: prod.splits)

lemma inverse_transform_frame:
  "self_of (inverse_transform self w X) = self"
  "length (heap w) \<le> ref_of (inverse_transform self w X)"
  "ref_of (inverse_transform self w X) < length (heap (world_of (inverse_transform self w X)))"
  "take (length (heap w)) (heap (world_of (inverse_transform self w X))) = heap w"
  "emitted (world_of (inverse_transform self w X)) = emitted w"
  by (simp_all add: inverse_transform_def store_simps split: prod.splits)

text \<open>
  The warnings of the forward method: the log grows by the upper-bound warning when
  that bound is configured and some element is at or above it, then by the
  lower-bound warning when that bound is configured and some element is at or below
  it.
\<close>

lemma transform_emitted:
  "emitted (world_of (transform self w X)) =
     emitted w
     @ (case upper_bound self of
          None \<Rightarrow> []
        | Some b \<Rightarrow> if list_ex (\<lambda>x. fge x (Fin b)) (data (heap w ! X))
                    then [RuntimeWarning upper_message] else [])
     @ (case lower_bound self of
          None \<Rightarrow> []
        | Some a \<Rightarrow> if list_ex (\<lambda>x. fle x (Fin a)) (data (heap w ! X))
                    then [RuntimeWarning lower_message] else [])"
  by (simp add: transform_def store_simps any_ge_def any_le_def split: prod.splits option.splits)

subsection \<open>The inverse formulas undo the forward formulas\<close>

lemma roundtrip_elem:
  assumes "strictly_inside self x"
  shows "backward_elem self (forward_elem self x) = x"
proof -
  from assms obtain v where x: "x = Fin v"
    by (cases x) (simp_all add: strictly_inside_def)
  show ?thesis
  proof (cases "truthy (upper_bound self) \<and> truthy (lower_bound self)")
    case True
    then obtain a b where ab: "lower_bound self = Some a" "upper_bound self = Some b"
      by (auto simp add: truthy_def split: option.splits)
    with assms x have lt: "a < v" "v < b"
      by (simp_all add: strictly_inside_def)
    define q where "q = (v - a) / (b - v)"
    from lt have q: "0 < q" by (simp add: q_def)
    have inv: "(b * q + a) / (q + 1) = v"
    proof -
      from lt have nz: "b - v \<noteq> 0" "b - a \<noteq> 0" by simp_all
      have num: "b * q + a = v * (b - a) / (b - v)"
        using nz by (simp add: q_def field_simps)
      have den: "q + 1 = (b - a) / (b - v)"
        using nz by (simp add: q_def field_simps)
      show ?thesis using nz by (simp add: num den)
    qed
    from True ab lt q show ?thesis
      using inv by (simp add: x forward_elem_def backward_elem_def fsub_def q_def [symmetric])
  next
    case False
    show ?thesis
    proof (cases "upper_bound self")
      case (Some b)
      with assms x have "v < b" by (simp add: strictly_inside_def)
      with False Some show ?thesis
        by (auto simp add: x forward_elem_def backward_elem_def fsub_def)
    next
      case None
      note ub = None
      show ?thesis
      proof (cases "lower_bound self")
        case (Some a)
        with assms x have "a < v" by (simp add: strictly_inside_def)
        with ub Some show ?thesis
          by (simp add: x forward_elem_def backward_elem_def fsub_def truthy_def)
      next
        case None
        with ub show ?thesis
          by (simp add: forward_elem_def backward_elem_def truthy_def)
      qed
    qed
  qed
qed

lemma elementwise_roundtrip:
  assumes "\<forall>x \<in> set (data a). strictly_inside self x"
  shows "elementwise (backward_elem self) (elementwise (forward_elem self) a) = a"
proof -
  have "map (\<lambda>x. backward_elem self (forward_elem self x)) (data a) = data a"
    using assms by (simp add: map_idI roundtrip_elem)
  then show ?thesis
    by (simp add: elementwise_def comp_def)
qed

text \<open>
  C1. Take any configuration of the two bounds and any array whose elements are finite
  and strictly inside the open interval of the configured bounds. Transforming the
  array and inverse-transforming the result gives an array equal to the input, in
  shape and in every element. Finite floats are read as reals here, so the equality
  is exact: the rounding of the floating-point operations is outside the model.
\<close>

theorem roundtrip:
  assumes "X < length (heap w)"
    and "\<forall>x \<in> set (data (heap w ! X)). strictly_inside self x"
  shows "case transform self w X of
           (r, self', w') \<Rightarrow> result_array (inverse_transform self' w' r) = heap w ! X"
proof -
  define t where "t = transform self w X"
  have valid: "ref_of t < length (heap (world_of t))" and same: "self_of t = self"
    by (simp_all add: t_def transform_frame)
  have "result_array (inverse_transform (self_of t) (world_of t) (ref_of t))
          = elementwise (backward_elem self) (result_array t)"
    using inverse_transform_array [OF valid] by (simp add: same result_array_def)
  also have "result_array t = elementwise (forward_elem self) (heap w ! X)"
    using assms(1) by (simp add: t_def transform_array)
  also have "elementwise (backward_elem self) \<dots> = heap w ! X"
    using assms(2) by (rule elementwise_roundtrip)
  finally show ?thesis
    by (cases "transform self w X") (simp add: t_def ref_of_def self_of_def world_of_def)
qed

theorem roundtrip_witness:
  "(0::nat) < length (heap \<lparr>heap = [\<lparr>shape = [2, 2], data = [Fin 0, Fin 500, Fin (- 500), Fin 999999]\<rparr>],
                           emitted = []\<rparr>)
   \<and> list_all (strictly_inside \<lparr>lower_bound = Some (- 1000000), upper_bound = Some 1000000\<rparr>)
         [Fin 0, Fin 500, Fin (- 500), Fin 999999]
   \<and> (case transform \<lparr>lower_bound = Some (- 1000000), upper_bound = Some 1000000\<rparr>
              \<lparr>heap = [\<lparr>shape = [2, 2], data = [Fin 0, Fin 500, Fin (- 500), Fin 999999]\<rparr>],
               emitted = []\<rparr> 0 of
         (r, self', w') \<Rightarrow>
           result_array (inverse_transform self' w' r)
             = \<lparr>shape = [2, 2], data = [Fin 0, Fin 500, Fin (- 500), Fin 999999]\<rparr>)"
proof -
  let ?a = "\<lparr>shape = [2, 2], data = [Fin 0, Fin 500, Fin (- 500), Fin 999999]\<rparr>"
  let ?w = "\<lparr>heap = [?a], emitted = []\<rparr>"
  let ?self = "\<lparr>lower_bound = Some (- 1000000), upper_bound = Some 1000000\<rparr>"
  have valid: "(0::nat) < length (heap ?w)" by simp
  have inside: "\<forall>x \<in> set (data (heap ?w ! 0)). strictly_inside ?self x"
    by (simp add: strictly_inside_def)
  show ?thesis
    using valid inside roundtrip [OF valid inside] by simp
qed

text \<open>
  C2. The two-bound branch is chosen by the truth value of the bounds. When both
  bounds are configured and one of them is zero, the forward method does not compute
  \<open>log((x - a) / (b - x))\<close> and the inverse method does not compute its inverse: both
  fall to the next branch of the chain, which tests only that the upper bound is
  configured, and compute \<open>- log(b - x)\<close> and \<open>b - exp(- x)\<close>. This is the single-bound
  formula of the upper bound whichever of the two bounds is the zero one.
\<close>

theorem zero_bound_takes_upper_formula:
  assumes "X < length (heap w)"
    and "lower_bound self = Some a" and "upper_bound self = Some b"
    and "a = 0 \<or> b = 0"
  shows "result_array (transform self w X)
           = elementwise (\<lambda>x. fneg (flog (fsub (Fin b) x))) (heap w ! X)
       \<and> result_array (inverse_transform self w X)
           = elementwise (\<lambda>x. fsub (Fin b) (fexp (fneg x))) (heap w ! X)"
proof -
  from assms(2-4) have sel: "\<not> (truthy (upper_bound self) \<and> truthy (lower_bound self))"
    "upper_bound self \<noteq> None"
    by (auto simp add: truthy_def)
  from sel assms(3) have "forward_elem self = (\<lambda>x. fneg (flog (fsub (Fin b) x)))"
    "backward_elem self = (\<lambda>x. fsub (Fin b) (fexp (fneg x)))"
    by (simp_all add: forward_elem_upper backward_elem_upper)
  with assms(1) show ?thesis
    by (simp add: transform_array inverse_transform_array)
qed

theorem zero_bound_takes_upper_formula_witness:
  "(0::nat) < length (heap \<lparr>heap = [\<lparr>shape = [1], data = [Fin 5]\<rparr>], emitted = []\<rparr>)
   \<and> lower_bound \<lparr>lower_bound = Some 0, upper_bound = Some 10\<rparr> = Some 0
   \<and> upper_bound \<lparr>lower_bound = Some 0, upper_bound = Some 10\<rparr> = Some 10
   \<and> ((0::real) = 0 \<or> (10::real) = 0)
   \<and> result_array (transform \<lparr>lower_bound = Some 0, upper_bound = Some 10\<rparr>
                       \<lparr>heap = [\<lparr>shape = [1], data = [Fin 5]\<rparr>], emitted = []\<rparr> 0)
       = \<lparr>shape = [1], data = [Fin (- ln 5)]\<rparr>
   \<and> \<lparr>shape = [1], data = [Fin (- ln 5)]\<rparr>
       \<noteq> elementwise (\<lambda>x. flog (fdiv (fsub x (Fin 0)) (fsub (Fin 10) x)))
            \<lparr>shape = [1], data = [Fin 5]\<rparr>
   \<and> result_array (inverse_transform \<lparr>lower_bound = Some 0, upper_bound = Some 10\<rparr>
                       \<lparr>heap = [\<lparr>shape = [1], data = [Fin 0]\<rparr>], emitted = []\<rparr> 0)
       = \<lparr>shape = [1], data = [Fin 9]\<rparr>"
proof -
  let ?self = "\<lparr>lower_bound = Some 0, upper_bound = Some 10\<rparr>"
  let ?w = "\<lparr>heap = [\<lparr>shape = [1], data = [Fin 5]\<rparr>], emitted = []\<rparr>"
  let ?w' = "\<lparr>heap = [\<lparr>shape = [1], data = [Fin 0]\<rparr>], emitted = []\<rparr>"
  have v: "(0::nat) < length (heap ?w)" and v': "(0::nat) < length (heap ?w')" by simp_all
  have lb: "lower_bound ?self = Some 0" and ub: "upper_bound ?self = Some 10" by simp_all
  have z: "(0::real) = 0 \<or> (10::real) = 0" by simp
  show ?thesis
    using zero_bound_takes_upper_formula [OF v lb ub z]
      zero_bound_takes_upper_formula [OF v' lb ub z]
    by (simp add: elementwise_def fsub_def)
qed


subsection \<open>Warnings, copies and frame conditions\<close>

text \<open>
  C4. The forward method on any array, in particular one with elements at or beyond a
  configured bound, returns normally: the model of \<^verbatim>\<open>_transform\<close> has no raising
  branch, as the source has none, and \<^verbatim>\<open>warn\<close> only appends to the log. The call
  adds exactly one warning for each configured bound that some element violates
  (at or above the upper bound, at or below the lower bound) and none otherwise, and
  the returned array is the branch formula applied to every element, the same
  function \<open>forward_elem\<close> that is applied to in-domain input; the warnings do not enter
  it. Outside the domain the formula yields infinities and \<^verbatim>\<open>nan\<close>, as the instance
  below shows for \<^verbatim>\<open>upper_bound = 100\<close> and \<^verbatim>\<open>[100.0, 150.0]\<close>.
\<close>

theorem transform_warns_without_failing:
  assumes "X < length (heap w)"
  shows "emitted (world_of (transform self w X)) =
           emitted w
           @ (case upper_bound self of
                None \<Rightarrow> []
              | Some b \<Rightarrow> if list_ex (\<lambda>x. fge x (Fin b)) (data (heap w ! X))
                          then [RuntimeWarning upper_message] else [])
           @ (case lower_bound self of
                None \<Rightarrow> []
              | Some a \<Rightarrow> if list_ex (\<lambda>x. fle x (Fin a)) (data (heap w ! X))
                          then [RuntimeWarning lower_message] else [])
       \<and> result_array (transform self w X) = elementwise (forward_elem self) (heap w ! X)"
  using assms by (simp add: transform_emitted transform_array)

theorem transform_warns_without_failing_witness:
  "(0::nat) < length (heap \<lparr>heap = [\<lparr>shape = [2], data = [Fin 100, Fin 150]\<rparr>], emitted = []\<rparr>)
   \<and> emitted (world_of (transform \<lparr>lower_bound = None, upper_bound = Some 100\<rparr>
                \<lparr>heap = [\<lparr>shape = [2], data = [Fin 100, Fin 150]\<rparr>], emitted = []\<rparr> 0))
       = [RuntimeWarning upper_message]
   \<and> result_array (transform \<lparr>lower_bound = None, upper_bound = Some 100\<rparr>
                \<lparr>heap = [\<lparr>shape = [2], data = [Fin 100, Fin 150]\<rparr>], emitted = []\<rparr> 0)
       = \<lparr>shape = [2], data = [PInf, NaN]\<rparr>"
proof -
  let ?w = "\<lparr>heap = [\<lparr>shape = [2], data = [Fin 100, Fin 150]\<rparr>], emitted = []\<rparr>"
  have v: "(0::nat) < length (heap ?w)" by simp
  show ?thesis
    using v transform_warns_without_failing [OF v, of "\<lparr>lower_bound = None, upper_bound = Some 100\<rparr>"]
    by (simp add: forward_elem_def truthy_def elementwise_def fsub_def)
qed

text \<open>
  C7. With both bounds unset, the forward method returns an array equal to the input
  array, held under a reference that differs from the input's and that did not exist
  before the call; and so does the inverse method. This holds for every array,
  whatever its elements.
\<close>

theorem unbounded_is_fresh_copy:
  assumes "X < length (heap w)"
    and "lower_bound self = None" and "upper_bound self = None"
  shows "result_array (transform self w X) = heap w ! X
       \<and> ref_of (transform self w X) \<noteq> X
       \<and> length (heap w) \<le> ref_of (transform self w X)
       \<and> result_array (inverse_transform self w X) = heap w ! X
       \<and> ref_of (inverse_transform self w X) \<noteq> X
       \<and> length (heap w) \<le> ref_of (inverse_transform self w X)"
proof -
  from assms(2,3) have "forward_elem self = (\<lambda>x. x)" "backward_elem self = (\<lambda>x. x)"
    by (simp_all add: forward_elem_none backward_elem_none)
  with assms(1) have "result_array (transform self w X) = heap w ! X"
    "result_array (inverse_transform self w X) = heap w ! X"
    by (simp_all add: transform_array inverse_transform_array elementwise_id)
  moreover have "length (heap w) \<le> ref_of (transform self w X)"
    "length (heap w) \<le> ref_of (inverse_transform self w X)"
    by (simp_all add: transform_frame inverse_transform_frame)
  ultimately show ?thesis
    using assms(1) by simp
qed

theorem unbounded_is_fresh_copy_witness:
  "(0::nat) < length (heap \<lparr>heap = [\<lparr>shape = [3], data = [Fin 2, NaN, PInf]\<rparr>], emitted = []\<rparr>)
   \<and> lower_bound \<lparr>lower_bound = None, upper_bound = None\<rparr> = None
   \<and> upper_bound \<lparr>lower_bound = None, upper_bound = None\<rparr> = None
   \<and> result_array (transform \<lparr>lower_bound = None, upper_bound = None\<rparr>
        \<lparr>heap = [\<lparr>shape = [3], data = [Fin 2, NaN, PInf]\<rparr>], emitted = []\<rparr> 0)
       = \<lparr>shape = [3], data = [Fin 2, NaN, PInf]\<rparr>
   \<and> ref_of (transform \<lparr>lower_bound = None, upper_bound = None\<rparr>
        \<lparr>heap = [\<lparr>shape = [3], data = [Fin 2, NaN, PInf]\<rparr>], emitted = []\<rparr> 0) \<noteq> 0
   \<and> result_array (inverse_transform \<lparr>lower_bound = None, upper_bound = None\<rparr>
        \<lparr>heap = [\<lparr>shape = [3], data = [Fin 2, NaN, PInf]\<rparr>], emitted = []\<rparr> 0)
       = \<lparr>shape = [3], data = [Fin 2, NaN, PInf]\<rparr>
   \<and> ref_of (inverse_transform \<lparr>lower_bound = None, upper_bound = None\<rparr>
        \<lparr>heap = [\<lparr>shape = [3], data = [Fin 2, NaN, PInf]\<rparr>], emitted = []\<rparr> 0) \<noteq> 0"
proof -
  let ?w = "\<lparr>heap = [\<lparr>shape = [3], data = [Fin 2, NaN, PInf]\<rparr>], emitted = []\<rparr>"
  let ?self = "\<lparr>lower_bound = None, upper_bound = None\<rparr>"
  have v: "(0::nat) < length (heap ?w)" by simp
  have lb: "lower_bound ?self = None" and ub: "upper_bound ?self = None" by simp_all
  show ?thesis
    using v unbounded_is_fresh_copy [OF v lb ub] by simp
qed

text \<open>
  C8. With \<^verbatim>\<open>lower_bound = 0\<close> and no upper bound, the forward method maps the array
  \<^verbatim>\<open>[1.0, 10.0]\<close> to \<^verbatim>\<open>[log(1.0), log(10.0)]\<close>, and the inverse method maps that result
  back to \<^verbatim>\<open>[1.0, 10.0]\<close>.
\<close>

theorem lower_bound_zero_example:
  "(let self = \<lparr>lower_bound = Some 0, upper_bound = None\<rparr>;
        w = \<lparr>heap = [\<lparr>shape = [2], data = [Fin 1, Fin 10]\<rparr>], emitted = []\<rparr>;
        t = transform self w 0;
        u = inverse_transform (self_of t) (world_of t) (ref_of t)
    in result_array t = \<lparr>shape = [2], data = [Fin (ln 1), Fin (ln 10)]\<rparr>
       \<and> result_array u = \<lparr>shape = [2], data = [Fin 1, Fin 10]\<rparr>)"
proof -
  let ?self = "\<lparr>lower_bound = Some 0, upper_bound = None\<rparr>"
  let ?a = "\<lparr>shape = [2], data = [Fin 1, Fin 10]\<rparr>"
  let ?w = "\<lparr>heap = [?a], emitted = []\<rparr>"
  let ?t = "transform ?self ?w 0"
  have t: "result_array ?t = \<lparr>shape = [2], data = [Fin (ln 1), Fin (ln 10)]\<rparr>"
    by (simp add: transform_array forward_elem_def truthy_def elementwise_def fsub_def)
  have valid: "ref_of ?t < length (heap (world_of ?t))"
    by (rule transform_frame)
  have "result_array (inverse_transform ?self (world_of ?t) (ref_of ?t))
          = elementwise (backward_elem ?self) (result_array ?t)"
    using inverse_transform_array [OF valid] by (simp add: result_array_def)
  also have "\<dots> = ?a"
    unfolding t by (simp add: backward_elem_def truthy_def elementwise_def)
  finally show ?thesis
    using t by (simp add: Let_def transform_frame)
qed

text \<open>
  C9. The inverse method issues no warning: for every configuration, every process
  state and every argument the log of warnings after the call is the log before it.
  (The warnings are those of the class's own \<^verbatim>\<open>warn\<close> calls; what numpy itself reports
  on floating-point conditions is not part of the model.)
\<close>

theorem inverse_transform_never_warns:
  "emitted (world_of (inverse_transform self w X)) = emitted w"
  by (simp add: inverse_transform_frame)

text \<open>
  C10. Neither method changes the object's parameters or any array that existed
  before the call, the argument among them: the object returned is the object given,
  and the store after the call begins with the store before it. The reference that is
  returned is a new one, at or beyond the end of the old store, and it is allocated in
  the new store.
\<close>

theorem calls_preserve_input_and_parameters:
  "self_of (transform self w X) = self
   \<and> take (length (heap w)) (heap (world_of (transform self w X))) = heap w
   \<and> length (heap w) \<le> ref_of (transform self w X)
   \<and> ref_of (transform self w X) < length (heap (world_of (transform self w X)))
   \<and> self_of (inverse_transform self w X) = self
   \<and> take (length (heap w)) (heap (world_of (inverse_transform self w X))) = heap w
   \<and> length (heap w) \<le> ref_of (inverse_transform self w X)
   \<and> ref_of (inverse_transform self w X) < length (heap (world_of (inverse_transform self w X)))"
  by (simp add: transform_frame inverse_transform_frame)

end
